theory Spec2Isabelle
  imports Main "HOL-Library.Sublist"
begin

section \<open>JavaScript values and strings\<close>

text \<open>
  The client script \<^verbatim>\<open>static/js/app.js\<close> is embedded as functions on an explicit
  application state. Values whose JavaScript type matters to the code (truthiness tests,
  template-literal conversion) are kept in a small universe of JavaScript values.
  Numbers are integers: the script only ever formats and compares page numbers and ids.
\<close>

datatype jsval = JUndefined | JNull | JBool bool | JNum int | JStr string

text \<open>The test \<^verbatim>\<open>if (v)\<close> and the operand test of \<^verbatim>\<open>!\<close> and \<^verbatim>\<open>||\<close>.\<close>

fun truthy :: "jsval \<Rightarrow> bool" where
  "truthy JUndefined = False"
| "truthy JNull = False"
| "truthy (JBool b) = b"
| "truthy (JNum n) = (n \<noteq> 0)"
| "truthy (JStr s) = (s \<noteq> [])"

definition digit :: "nat \<Rightarrow> char" where
  "digit d = ''0123456789'' ! d"

fun show_nat :: "nat \<Rightarrow> string" where
  "show_nat n = (if n < 10 then [digit n] else show_nat (n div 10) @ [digit (n mod 10)])"

declare show_nat.simps [simp del]

definition show_int :: "int \<Rightarrow> string" where
  "show_int i = (if i < 0 then CHR ''-'' # show_nat (nat (- i)) else show_nat (nat i))"

text \<open>The conversion a template literal \<^verbatim>\<open>`${v}`\<close> applies to an embedded value.\<close>

fun toString :: "jsval \<Rightarrow> string" where
  "toString JUndefined = ''undefined''"
| "toString JNull = ''null''"
| "toString (JBool b) = (if b then ''true'' else ''false'')"
| "toString (JNum n) = show_int n"
| "toString (JStr s) = s"

text \<open>
  A JavaScript string is modelled by the bytes of its UTF-8 encoding, one \<^typ>\<open>char\<close> per
  byte, so an ASCII string is itself. On this representation strict equality,
  \<^verbatim>\<open>startsWith\<close>, \<^verbatim>\<open>split\<close>, \<^verbatim>\<open>includes\<close>, \<^verbatim>\<open>encodeURIComponent\<close> and
  \<^verbatim>\<open>decodeURIComponent\<close> are exact for well-formed strings. \<^verbatim>\<open>length\<close> counts
  UTF-16 code units and is computed from the bytes. A string with an unpaired surrogate
  has no UTF-8 encoding and is outside the model (on such a string
  \<^verbatim>\<open>encodeURIComponent\<close> would raise).

  \<^verbatim>\<open>String.prototype.toLowerCase\<close> works from the case tables of Unicode, which are the
  platform's and not part of the script. It is not defined here: the one method that
  calls it, the letter filter, takes it as an argument.
\<close>

definition byte :: "char \<Rightarrow> nat" where
  "byte c = of_char c"

text \<open>
  \<^verbatim>\<open>s.length\<close>: one unit for every code point (every byte that is not a continuation
  byte) and a second one for every code point outside the basic plane (lead byte F0 and up).
\<close>

definition js_length :: "string \<Rightarrow> nat" where
  "js_length s = length (filter (\<lambda>c. \<not> (128 \<le> byte c \<and> byte c < 192)) s)
               + length (filter (\<lambda>c. 240 \<le> byte c) s)"

definition startsWith :: "string \<Rightarrow> string \<Rightarrow> bool" where
  "startsWith s p = prefix p s"

text \<open>
  \<^verbatim>\<open>trim\<close> removes white space and line terminators from both ends. The table lists the
  UTF-8 encodings of the code points ECMAScript counts as such: TAB, LF, VT, FF, CR, SP,
  U+00A0, U+1680, U+2000 to U+200A, U+2028, U+2029, U+202F, U+205F, U+3000 and U+FEFF.
\<close>

definition whiteSpace :: "string list" where
  "whiteSpace =
     [[CHR 0x09], [CHR 0x0A], [CHR 0x0B], [CHR 0x0C], [CHR 0x0D], [CHR 0x20],
      [CHR 0xC2, CHR 0xA0], [CHR 0xE1, CHR 0x9A, CHR 0x80],
      [CHR 0xE2, CHR 0x80, CHR 0x80], [CHR 0xE2, CHR 0x80, CHR 0x81],
      [CHR 0xE2, CHR 0x80, CHR 0x82], [CHR 0xE2, CHR 0x80, CHR 0x83],
      [CHR 0xE2, CHR 0x80, CHR 0x84], [CHR 0xE2, CHR 0x80, CHR 0x85],
      [CHR 0xE2, CHR 0x80, CHR 0x86], [CHR 0xE2, CHR 0x80, CHR 0x87],
      [CHR 0xE2, CHR 0x80, CHR 0x88], [CHR 0xE2, CHR 0x80, CHR 0x89],
      [CHR 0xE2, CHR 0x80, CHR 0x8A], [CHR 0xE2, CHR 0x80, CHR 0xA8],
      [CHR 0xE2, CHR 0x80, CHR 0xA9], [CHR 0xE2, CHR 0x80, CHR 0xAF],
      [CHR 0xE2, CHR 0x81, CHR 0x9F], [CHR 0xE3, CHR 0x80, CHR 0x80],
      [CHR 0xEF, CHR 0xBB, CHR 0xBF]]"

text \<open>
  The number of bytes of the white-space code point a string starts with, respectively
  ends with; 0 if there is none.
\<close>

definition leadingSpace :: "string \<Rightarrow> nat" where
  "leadingSpace s = (case find (\<lambda>w. prefix w s) whiteSpace of None \<Rightarrow> 0 | Some w \<Rightarrow> length w)"

definition trailingSpace :: "string \<Rightarrow> nat" where
  "trailingSpace s =
     (case find (\<lambda>w. prefix (rev w) (rev s)) whiteSpace of None \<Rightarrow> 0 | Some w \<Rightarrow> length w)"

function trimStart :: "string \<Rightarrow> string" where
  "trimStart s = (if leadingSpace s = 0 then s else trimStart (drop (leadingSpace s) s))"
  by pat_completeness auto

function trimEnd :: "string \<Rightarrow> string" where
  "trimEnd s = (if trailingSpace s = 0 then s
                else trimEnd (take (length s - trailingSpace s) s))"
  by pat_completeness auto

lemma leadingSpace_Nil: "leadingSpace [] = 0"
  by (simp add: leadingSpace_def whiteSpace_def)

lemma trailingSpace_Nil: "trailingSpace [] = 0"
  by (simp add: trailingSpace_def whiteSpace_def)

termination trimStart
proof (relation "measure length")
  fix s assume "leadingSpace s \<noteq> 0"
  then have "s \<noteq> []" using leadingSpace_Nil by auto
  with \<open>leadingSpace s \<noteq> 0\<close> show "(drop (leadingSpace s) s, s) \<in> measure length"
    by simp
qed simp

termination trimEnd
proof (relation "measure length")
  fix s assume "trailingSpace s \<noteq> 0"
  then have "s \<noteq> []" using trailingSpace_Nil by auto
  with \<open>trailingSpace s \<noteq> 0\<close>
  show "(take (length s - trailingSpace s) s, s) \<in> measure length"
    by simp
qed simp

declare trimStart.simps [simp del] trimEnd.simps [simp del]

definition trim :: "string \<Rightarrow> string" where
  "trim s = trimEnd (trimStart s)"

text \<open>
  \<^verbatim>\<open>s.split(sep)\<close> for a non-empty separator: the pieces between the successive
  occurrences of the separator, found from the left. (The script never splits at the
  empty string; there the model splits into bytes.)
\<close>

function splitFrom :: "string \<Rightarrow> string \<Rightarrow> string \<Rightarrow> string list" where
  "splitFrom sep cur s =
     (if s = [] then [cur]
      else if sep \<noteq> [] \<and> prefix sep s then cur # splitFrom sep [] (drop (length sep) s)
      else splitFrom sep (cur @ [hd s]) (tl s))"
  by pat_completeness auto
termination
  by (relation "measure (\<lambda>(sep, cur, s). length s)") auto

declare splitFrom.simps [simp del]

definition js_split :: "string \<Rightarrow> string \<Rightarrow> string list" where
  "js_split s sep = (if sep = [] then map (\<lambda>c. [c]) s else splitFrom sep [] s)"

text \<open>Reading an array of strings at an index: \<^verbatim>\<open>undefined\<close> past the end.\<close>

definition at_index :: "string list \<Rightarrow> nat \<Rightarrow> jsval" where
  "at_index xs i = (if i < length xs then JStr (xs ! i) else JUndefined)"

text \<open>\<^verbatim>\<open>xs.join(sep)\<close> on an array of strings.\<close>

fun join :: "string \<Rightarrow> string list \<Rightarrow> string" where
  "join sep [] = []"
| "join sep [x] = x"
| "join sep (x # y # ys) = x @ sep @ join sep (y # ys)"

subsection \<open>Percent-encoding\<close>

datatype error = URIError | TypeError string

text \<open>
  \<^verbatim>\<open>encodeURIComponent\<close> keeps the unreserved characters (letters, digits and
  \<^verbatim>\<open>- _ . ! ~ * ' ( )\<close>) and writes every other byte of the UTF-8 encoding as \<^verbatim>\<open>%XX\<close>.
\<close>

definition unreserved :: "char \<Rightarrow> bool" where
  "unreserved c =
     ((65 \<le> byte c \<and> byte c \<le> 90) \<or> (97 \<le> byte c \<and> byte c \<le> 122)
      \<or> (48 \<le> byte c \<and> byte c \<le> 57) \<or> c \<in> set ''-_.!~*()'' \<or> c = CHR 0x27)"

definition hexDigit :: "nat \<Rightarrow> char" where
  "hexDigit d = ''0123456789ABCDEF'' ! d"

definition encodeURIComponent :: "string \<Rightarrow> string" where
  "encodeURIComponent s =
     concat (map (\<lambda>c. if unreserved c then [c]
                       else [CHR ''%'', hexDigit (byte c div 16), hexDigit (byte c mod 16)]) s)"

text \<open>
  \<^verbatim>\<open>decodeURIComponent\<close> follows the Decode operation of ECMAScript. An escape is
  \<^verbatim>\<open>%\<close> and two hexadecimal digits. An escaped byte below 128 is a character; a larger
  one must start a well-formed UTF-8 sequence whose other bytes are escapes as well.
  Anything else raises \<^verbatim>\<open>URIError\<close>.
\<close>

definition unhex :: "char \<Rightarrow> nat option" where
  "unhex c =
     (if 48 \<le> byte c \<and> byte c \<le> 57 then Some (byte c - 48)
      else if 65 \<le> byte c \<and> byte c \<le> 70 then Some (byte c - 55)
      else if 97 \<le> byte c \<and> byte c \<le> 102 then Some (byte c - 87)
      else None)"

datatype token = Lit char | Esc nat

fun unescape :: "string \<Rightarrow> token list option" where
  "unescape [] = Some []"
| "unescape (c # cs) =
     (if c \<noteq> CHR ''%'' then map_option ((#) (Lit c)) (unescape cs)
      else (case cs of
              h1 # h2 # rest \<Rightarrow>
                (case (unhex h1, unhex h2) of
                   (Some a, Some b) \<Rightarrow> map_option ((#) (Esc (16 * a + b))) (unescape rest)
                 | _ \<Rightarrow> None)
            | _ \<Rightarrow> None))"

text \<open>The number of bytes a lead byte announces: the count of its leading one bits.\<close>

definition sequenceLength :: "nat \<Rightarrow> nat option" where
  "sequenceLength b =
     (if 192 \<le> b \<and> b < 224 then Some 2
      else if 224 \<le> b \<and> b < 240 then Some 3
      else if 240 \<le> b \<and> b < 248 then Some 4
      else None)"

definition continuation :: "nat \<Rightarrow> bool" where
  "continuation b = (128 \<le> b \<and> b < 192)"

text \<open>Well-formed UTF-8 sequences of more than one byte (Unicode, table 3-7).\<close>

fun wellFormed :: "nat list \<Rightarrow> bool" where
  "wellFormed [a, b] = (194 \<le> a \<and> a \<le> 223 \<and> continuation b)"
| "wellFormed [a, b, c] =
     ((a = 224 \<and> 160 \<le> b \<and> b < 192 \<or> 225 \<le> a \<and> a \<le> 236 \<and> continuation b
       \<or> a = 237 \<and> 128 \<le> b \<and> b < 160 \<or> 238 \<le> a \<and> a \<le> 239 \<and> continuation b)
      \<and> continuation c)"
| "wellFormed [a, b, c, d] =
     ((a = 240 \<and> 144 \<le> b \<and> b < 192 \<or> 241 \<le> a \<and> a \<le> 243 \<and> continuation b
       \<or> a = 244 \<and> 128 \<le> b \<and> b < 144)
      \<and> continuation c \<and> continuation d)"
| "wellFormed _ = False"

fun escaped :: "token \<Rightarrow> nat option" where
  "escaped (Lit c) = None"
| "escaped (Esc b) = Some b"

fun decodeTokens :: "token list \<Rightarrow> string option" where
  "decodeTokens [] = Some []"
| "decodeTokens (Lit c # ts) = map_option ((#) c) (decodeTokens ts)"
| "decodeTokens (Esc b # ts) =
     (if b < 128 then map_option ((#) (char_of b)) (decodeTokens ts)
      else (case sequenceLength b of
              None \<Rightarrow> None
            | Some n \<Rightarrow>
                (if length ts < n - 1 then None
                 else (case those (map escaped (take (n - 1) ts)) of
                         None \<Rightarrow> None
                       | Some bs \<Rightarrow>
                           (if wellFormed (b # bs)
                            then map_option ((@) (map char_of (b # bs)))
                                   (decodeTokens (drop (n - 1) ts))
                            else None)))))"

definition decodeURIComponent :: "string \<Rightarrow> error + string" where
  "decodeURIComponent s =
     (case unescape s of
        None \<Rightarrow> Inl URIError
      | Some ts \<Rightarrow> (case decodeTokens ts of None \<Rightarrow> Inl URIError | Some d \<Rightarrow> Inr d))"

section \<open>Application state\<close>

text \<open>
  The state has two parts. The first seven fields of \<open>app\<close> are the fields of the
  \<^verbatim>\<open>BeismanMapApp\<close> object. \<^verbatim>\<open>selectedEntityInfo\<close> only ever holds
  \<^verbatim>\<open>undefined\<close>, \<^verbatim>\<open>null\<close> or a string, and the script only tests it for
  truthiness, so the two absent values are one \<open>None\<close>. \<^verbatim>\<open>tempEntitiesList\<close> is not
  created by the constructor: \<open>None\<close> is the missing field, and reading a property of it
  raises \<^verbatim>\<open>TypeError\<close>.

  The other fields are the part of the browser the script acts on:
  \<^item> \<open>pathname\<close> is \<^verbatim>\<open>window.location.pathname\<close> and \<open>pushedStates\<close> the calls of
    \<^verbatim>\<open>history.pushState\<close>, oldest first. \<^verbatim>\<open>pushState\<close> is modelled as succeeding
    and setting the pathname to the path it is given; the normalisation a URL parser
    applies to a path (dot segments, a query or fragment mark, escaping) is not modelled.
  \<^item> \<open>pageTitle\<close> is the text of the element \<^verbatim>\<open>page-title\<close>, \<open>None\<close> if the document
    has no such element.
  \<^item> \<open>contentArea\<close> is \<open>None\<close> if the document has no element \<^verbatim>\<open>content-area\<close>;
    otherwise it holds every content assigned to the element so far, oldest first, so the
    last one is what the page shows. A content is a \<open>view\<close>: which template was rendered
    and with which values.
  \<^item> \<open>adminStatus\<close> tells whether the administrator banner is attached to the body.
  \<^item> \<open>alerts\<close> are the messages shown by \<^verbatim>\<open>alert\<close> and \<open>requests\<close> the calls of
    \<^verbatim>\<open>fetch\<close>, oldest first.

  Console output and the state of form controls (field values, button captions) are not
  modelled; a handler receives the values of the fields it reads as arguments. An object
  literal used as a table is an association list; the properties such an object inherits
  from \<^verbatim>\<open>Object.prototype\<close> are not modelled.

  An asynchronous method runs up to its first \<^verbatim>\<open>await\<close> when it is called. For the
  page renderers the model covers that part, which sends the request; what they render
  when the response arrives touches none of the seven fields. The form handlers and the
  letter filter are modelled as one step from the call to the end, with the responses
  they receive as arguments.
\<close>

record user =
  username :: string
  displayName :: string
  isAdmin :: jsval
  userSessionId :: jsval

datatype http_method = GET | POST | PUT | DELETE

record request =
  httpMethod :: http_method
  url :: string
  body :: "(string \<times> string) list"

record history_state =
  statePage :: string
  stateSelectedMapId :: jsval
  stateSelectedEntityInfo :: "string option"

datatype view =
    LoadingView
  | HomeView
  | AdminPanelView
  | MapDetailsView string bool
  | NoEntitySelectedView
  | EntityDetailsView jsval jsval string bool
  | InsertMapView "string list"
  | SelectMapFirstView
  | LoadingMapForEditingView

record app =
  currentUser :: "user option"
  currentPage :: string
  sessionId :: jsval
  pageHistory :: "string list"
  selectedMapId :: jsval
  selectedEntityInfo :: "string option"
  tempEntitiesList :: "string list option"
  pathname :: string
  pushedStates :: "(history_state \<times> string) list"
  pageTitle :: "string option"
  contentArea :: "view list option"
  adminStatus :: bool
  alerts :: "string list"
  requests :: "request list"

text \<open>
  A fresh application object in a document opened at the given path, with both elements
  present and still empty.
\<close>

definition constructor :: "string \<Rightarrow> app" where
  "constructor path =
     \<lparr> currentUser = None, currentPage = ''home'', sessionId = JNull,
       pageHistory = [''home''], selectedMapId = JNull, selectedEntityInfo = None,
       tempEntitiesList = None,
       pathname = path, pushedStates = [], pageTitle = Some [], contentArea = Some [],
       adminStatus = False, alerts = [], requests = [] \<rparr>"

text \<open>The guard expression \<^verbatim>\<open>this.currentUser?.isAdmin\<close>, as a condition.\<close>

definition isAdminUser :: "app \<Rightarrow> bool" where
  "isAdminUser s = (case currentUser s of None \<Rightarrow> False | Some u \<Rightarrow> truthy (isAdmin u))"

text \<open>
  Assigning a rendered template to \<^verbatim>\<open>innerHTML\<close> of the content area, which is the
  container every renderer is handed.
\<close>

definition setInnerHTML :: "view \<Rightarrow> app \<Rightarrow> app" where
  "setInnerHTML v s = s\<lparr>contentArea := map_option (\<lambda>vs. vs @ [v]) (contentArea s)\<rparr>"

definition alert :: "string \<Rightarrow> app \<Rightarrow> app" where
  "alert msg s = s\<lparr>alerts := alerts s @ [msg]\<rparr>"

definition fetch :: "http_method \<Rightarrow> string \<Rightarrow> (string \<times> string) list \<Rightarrow> app \<Rightarrow> app" where
  "fetch m u b s = s\<lparr>requests := requests s @ [\<lparr>httpMethod = m, url = u, body = b\<rparr>]\<rparr>"

definition updateBrowserHistory :: "string \<Rightarrow> jsval \<Rightarrow> string option \<Rightarrow> app \<Rightarrow> app" where
  "updateBrowserHistory page mapIdArg entityInfo s =
     (let mapId = (if mapIdArg = JUndefined then JNull else mapIdArg);
          urlPaths =
            [(''home'', ''/''),
             (''admin-panel'', ''/admin-panel''),
             (''browse-maps'', ''/browse-maps''),
             (''browse-entities'', ''/browse-entities''),
             (''insert-map'', ''/insert-map''),
             (''update-delete'', ''/update-delete''),
             (''map-details'',
                if truthy mapId then ''/map-details/'' @ toString mapId else ''/map-details''),
             (''entity-details'',
                case entityInfo of
                  None \<Rightarrow> ''/entity-details''
                | Some info \<Rightarrow>
                    if info \<noteq> [] then ''/entity-details/'' @ encodeURIComponent info
                    else ''/entity-details'')];
          newPath = (case map_of urlPaths page of Some p \<Rightarrow> p | None \<Rightarrow> ''/'');
          state = \<lparr>statePage = page, stateSelectedMapId = mapId,
                    stateSelectedEntityInfo = entityInfo\<rparr>
      in if pathname s \<noteq> newPath
         then s\<lparr>pushedStates := pushedStates s @ [(state, newPath)], pathname := newPath\<rparr>
         else s)"

definition pageTitles :: "(string \<times> string) list" where
  "pageTitles =
     [(''home'', ''Beisman Map Menu''),
      (''admin-panel'', ''Beisman Map Menu - Admin Panel''),
      (''admin-login'', ''Beisman Map Menu - Admin Login''),
      (''browse-maps'', ''Browse Beisman Maps''),
      (''browse-entities'', ''Browse Beisman Entities''),
      (''map-details'', ''Map Information''),
      (''entity-details'', ''Entity Information''),
      (''insert-map'', ''Insert New Map''),
      (''update-delete'', ''Update/Delete Map'')]"

definition updatePageTitle :: "app \<Rightarrow> app" where
  "updatePageTitle s =
     (case pageTitle s of
        None \<Rightarrow> s
      | Some old \<Rightarrow>
          s\<lparr>pageTitle := Some (case map_of pageTitles (currentPage s) of
                                 Some t \<Rightarrow> t | None \<Rightarrow> ''Beisman Map Menu'')\<rparr>)"

definition loadHomePage :: "app \<Rightarrow> app" where
  "loadHomePage s = setInnerHTML HomeView s"

definition showAdminStatus :: "app \<Rightarrow> app" where
  "showAdminStatus s = s\<lparr>adminStatus := True\<rparr>"

definition loadBrowseMaps :: "app \<Rightarrow> app" where
  "loadBrowseMaps s = fetch GET ''/api/maps?page=1&page_size=10'' [] s"

definition loadBrowseEntities :: "app \<Rightarrow> app" where
  "loadBrowseEntities s = fetch GET ''/api/entities?page=1&page_size=10'' [] s"

definition loadMapDetailsData :: "jsval \<Rightarrow> app \<Rightarrow> app" where
  "loadMapDetailsData mapId s = fetch GET (''/api/maps/'' @ toString mapId) [] s"

definition loadMapDetails :: "app \<Rightarrow> app" where
  "loadMapDetails s =
     (let mapId = selectedMapId s;
          homeDestination = (if isAdminUser s then ''admin-panel'' else ''home'')
      in loadMapDetailsData mapId (setInnerHTML (MapDetailsView homeDestination (isAdminUser s)) s))"

definition loadMapPreviewForEntity :: "jsval \<Rightarrow> app \<Rightarrow> app" where
  "loadMapPreviewForEntity beismanNumber s =
     fetch GET (''/api/maps/'' @ toString beismanNumber) [] s"

definition loadRelatedEntitiesForEntity :: "jsval \<Rightarrow> jsval \<Rightarrow> app \<Rightarrow> app" where
  "loadRelatedEntitiesForEntity beismanNumber currentEntityName s =
     fetch GET (''/api/entities?search='' @ toString beismanNumber) [] s"

definition loadEntityDetailsData :: "jsval \<Rightarrow> jsval \<Rightarrow> app \<Rightarrow> app" where
  "loadEntityDetailsData entityName beismanNumber s =
     loadRelatedEntitiesForEntity beismanNumber entityName
       (loadMapPreviewForEntity beismanNumber s)"

definition loadEntityDetails :: "app \<Rightarrow> app" where
  "loadEntityDetails s =
     (case selectedEntityInfo s of
        None \<Rightarrow> setInnerHTML NoEntitySelectedView s
      | Some info \<Rightarrow>
          if info = [] then setInnerHTML NoEntitySelectedView s
          else
            (let parts = js_split info ''|'';
                 entityName = at_index parts 0;
                 beismanNumber = at_index parts 1;
                 homeDestination = (if isAdminUser s then ''admin-panel'' else ''home'')
             in loadEntityDetailsData entityName beismanNumber
                  (setInnerHTML
                     (EntityDetailsView entityName beismanNumber homeDestination (isAdminUser s))
                     s)))"

definition loadMapForEditing :: "app \<Rightarrow> app" where
  "loadMapForEditing s = fetch GET (''/api/maps/'' @ toString (selectedMapId s)) [] s"

text \<open>
  \<^verbatim>\<open>navigateTo\<close> renders through \<^verbatim>\<open>loadCurrentPage\<close>, and the three guarded
  renderers call \<^verbatim>\<open>navigateTo('home')\<close>: the five methods are defined together. The
  recursion ends because the home page has no guard. Three facts for that proof come
  first: the helpers keep the current page.
\<close>

lemma currentPage_updateBrowserHistory [simp]:
  "currentPage (updateBrowserHistory p m e s) = currentPage s"
  by (simp add: updateBrowserHistory_def Let_def)

lemma currentPage_updatePageTitle [simp]:
  "currentPage (updatePageTitle s) = currentPage s"
  by (simp add: updatePageTitle_def split: option.splits)

lemma currentPage_setInnerHTML [simp]:
  "currentPage (setInnerHTML v s) = currentPage s"
  by (simp add: setInnerHTML_def)

function navigateTo :: "string \<Rightarrow> bool \<Rightarrow> app \<Rightarrow> app"
  and loadCurrentPage :: "app \<Rightarrow> app"
  and loadAdminPanel :: "app \<Rightarrow> app"
  and loadInsertMap :: "app \<Rightarrow> app"
  and loadUpdateDelete :: "app \<Rightarrow> app"
where
  "navigateTo page addToHistory s =
     (let s1 = (if addToHistory \<and> page \<noteq> currentPage s
                then s\<lparr>pageHistory := pageHistory s @ [currentPage s]\<rparr> else s);
          s2 = s1\<lparr>currentPage := page\<rparr>;
          s3 = updateBrowserHistory page (selectedMapId s2) (selectedEntityInfo s2) s2;
          s4 = updatePageTitle s3
      in loadCurrentPage s4)"
| "loadCurrentPage s =
     (if contentArea s = None then s
      else
        (let s1 = setInnerHTML LoadingView s
         in if currentPage s = ''home'' then loadHomePage s1
            else if currentPage s = ''admin-panel'' then loadAdminPanel s1
            else if currentPage s = ''browse-maps'' then loadBrowseMaps s1
            else if currentPage s = ''browse-entities'' then loadBrowseEntities s1
            else if currentPage s = ''map-details'' then loadMapDetails s1
            else if currentPage s = ''entity-details'' then loadEntityDetails s1
            else if currentPage s = ''insert-map'' then loadInsertMap s1
            else if currentPage s = ''update-delete'' then loadUpdateDelete s1
            else loadHomePage s1))"
| "loadAdminPanel s =
     (if \<not> isAdminUser s then navigateTo ''home'' True s
      else showAdminStatus (setInnerHTML AdminPanelView s))"
| "loadInsertMap s =
     (if \<not> isAdminUser s then navigateTo ''home'' True s
      else setInnerHTML (InsertMapView []) (s\<lparr>tempEntitiesList := Some []\<rparr>))"
| "loadUpdateDelete s =
     (if \<not> isAdminUser s then navigateTo ''home'' True s
      else if \<not> truthy (selectedMapId s) then setInnerHTML SelectMapFirstView s
      else loadMapForEditing (setInnerHTML LoadingMapForEditingView s))"
  by pat_completeness auto

termination
  apply (relation "measure (\<lambda>x. case x of
            Inl (Inl (page, addToHistory, s)) \<Rightarrow> (if page = ''home'' then 1 else 4)
          | Inl (Inr s) \<Rightarrow> (if currentPage s = ''home'' then 0 else 3)
          | Inr _ \<Rightarrow> 2)")
  apply (auto simp: Let_def)
  done

declare navigateTo.simps [simp del] loadCurrentPage.simps [simp del]
  loadAdminPanel.simps [simp del] loadInsertMap.simps [simp del]
  loadUpdateDelete.simps [simp del]

subsection \<open>Initial route and browser navigation\<close>

text \<open>
  A method that can raise returns how it ended together with the state it left: what it
  assigned before the exception stays assigned.
\<close>

datatype outcome = Returns | Throws error

definition loadInitialRoute :: "app \<Rightarrow> outcome \<times> app" where
  "loadInitialRoute s =
     (let path = pathname s;
          render = (\<lambda>s'. (Returns, loadCurrentPage (updatePageTitle s')))
      in if path = ''/'' \<or> path = [] then render (s\<lparr>currentPage := ''home''\<rparr>)
         else if path = ''/admin-panel'' then render (s\<lparr>currentPage := ''admin-panel''\<rparr>)
         else if path = ''/browse-maps'' then render (s\<lparr>currentPage := ''browse-maps''\<rparr>)
         else if path = ''/browse-entities''
           then render (s\<lparr>currentPage := ''browse-entities''\<rparr>)
         else if path = ''/insert-map'' then render (s\<lparr>currentPage := ''insert-map''\<rparr>)
         else if path = ''/update-delete'' then render (s\<lparr>currentPage := ''update-delete''\<rparr>)
         else if startsWith path ''/map-details/'' then
           (let s1 = s\<lparr>currentPage := ''map-details''\<rparr>;
                mapId = at_index (js_split path ''/map-details/'') 1
            in render (if truthy mapId then s1\<lparr>selectedMapId := mapId\<rparr> else s1))
         else if startsWith path ''/entity-details/'' then
           (let s1 = s\<lparr>currentPage := ''entity-details''\<rparr>;
                entityInfo = at_index (js_split path ''/entity-details/'') 1
            in if truthy entityInfo then
                 (case decodeURIComponent (toString entityInfo) of
                    Inl e \<Rightarrow> (Throws e, s1)
                  | Inr decoded \<Rightarrow> render (s1\<lparr>selectedEntityInfo := Some decoded\<rparr>))
               else render s1)
         else render (s\<lparr>currentPage := ''home''\<rparr>))"

text \<open>
  The \<^verbatim>\<open>popstate\<close> listener installed by \<^verbatim>\<open>setupBrowserHistory\<close>; the argument is
  \<^verbatim>\<open>event.state\<close>, absent for an entry that was not pushed by the script.
\<close>

definition onPopState :: "history_state option \<Rightarrow> app \<Rightarrow> outcome \<times> app" where
  "onPopState state s =
     (case state of
        Some st \<Rightarrow>
          (Returns,
           loadCurrentPage (updatePageTitle
             (s\<lparr>currentPage := statePage st, selectedMapId := stateSelectedMapId st,
                selectedEntityInfo := stateSelectedEntityInfo st\<rparr>)))
      | None \<Rightarrow> loadInitialRoute s)"

definition goBack :: "app \<Rightarrow> app" where
  "goBack s =
     (if length (pageHistory s) > 0
      then (let previousPage = last (pageHistory s)
            in navigateTo previousPage False (s\<lparr>pageHistory := butlast (pageHistory s)\<rparr>))
      else navigateTo ''home'' False s)"

definition showMapDetails :: "jsval \<Rightarrow> app \<Rightarrow> app" where
  "showMapDetails mapId s = navigateTo ''map-details'' True (s\<lparr>selectedMapId := mapId\<rparr>)"

definition showEntityDetails :: "jsval \<Rightarrow> jsval \<Rightarrow> app \<Rightarrow> app" where
  "showEntityDetails entityName beismanNumber s =
     navigateTo ''entity-details'' True
       (s\<lparr>selectedEntityInfo := Some (toString entityName @ ''|'' @ toString beismanNumber)\<rparr>)"

subsection \<open>Pagination\<close>

text \<open>
  The markup of the pagination controls is a list of buttons, each with its caption
  (without the arrow) and the call its \<^verbatim>\<open>onclick\<close> attribute makes.
\<close>

datatype action = LoadPage string int

record button =
  caption :: string
  onclick :: action

definition renderPaginationButtons :: "int \<Rightarrow> int \<Rightarrow> string \<Rightarrow> button list" where
  "renderPaginationButtons curPage totalPages type =
     (if totalPages \<le> 1 then []
      else (if curPage > 1
            then [\<lparr>caption = ''Previous'', onclick = LoadPage type (curPage - 1)\<rparr>] else [])
         @ (if curPage < totalPages
            then [\<lparr>caption = ''Next'', onclick = LoadPage type (curPage + 1)\<rparr>] else []))"

definition loadPage :: "string \<Rightarrow> int \<Rightarrow> app \<Rightarrow> app" where
  "loadPage type page s = s"

fun click :: "button \<Rightarrow> app \<Rightarrow> app" where
  "click b s = (case onclick b of LoadPage type page \<Rightarrow> loadPage type page s)"

subsection \<open>Temporary entity list\<close>

text \<open>
  The \<^verbatim>\<open>TypeError\<close> of reading a property of \<^verbatim>\<open>undefined\<close> or \<^verbatim>\<open>null\<close>. The
  wording of its message is the engine's; this is V8's.
\<close>

definition cannotRead :: "string \<Rightarrow> string \<Rightarrow> error" where
  "cannotRead what property =
     TypeError (''Cannot read properties of '' @ what @ '' (reading ''
                @ [CHR 0x27] @ property @ [CHR 0x27] @ '')'')"

fun errorMessage :: "error \<Rightarrow> string" where
  "errorMessage URIError = ''URI malformed''"
| "errorMessage (TypeError m) = m"

text \<open>
  The element \<^verbatim>\<open>temp-entities-list\<close> is part of the insert-map template, so it exists
  exactly while that template is the content shown.
\<close>

definition updateTempEntitiesDisplay :: "app \<Rightarrow> outcome \<times> app" where
  "updateTempEntitiesDisplay s =
     (case contentArea s of
        None \<Rightarrow> (Returns, s)
      | Some vs \<Rightarrow>
          (case (if vs = [] then LoadingView else last vs) of
             InsertMapView shown \<Rightarrow>
               (case tempEntitiesList s of
                  None \<Rightarrow> (Throws (cannotRead ''undefined'' ''length''), s)
                | Some names \<Rightarrow>
                    (Returns, s\<lparr>contentArea := Some (butlast vs @ [InsertMapView names])\<rparr>))
           | _ \<Rightarrow> (Returns, s)))"

definition addTempEntity :: "string \<Rightarrow> app \<Rightarrow> outcome \<times> app" where
  "addTempEntity inputValue s =
     (let entityName = trim inputValue
      in if entityName = [] then (Returns, alert ''Please enter an entity name.'' s)
         else if js_length entityName > 255
           then (Returns,
                 alert ''Entity name is too long. Please keep it under 255 characters.'' s)
         else (case tempEntitiesList s of
                 None \<Rightarrow> (Throws (cannotRead ''undefined'' ''includes''), s)
               | Some names \<Rightarrow>
                   if entityName \<in> set names
                   then (Returns, alert ''This entity is already in the list.'' s)
                   else updateTempEntitiesDisplay
                          (s\<lparr>tempEntitiesList := Some (names @ [entityName])\<rparr>)))"

definition removeTempEntity :: "string \<Rightarrow> app \<Rightarrow> outcome \<times> app" where
  "removeTempEntity entityName s =
     (case tempEntitiesList s of
        None \<Rightarrow> (Throws (cannotRead ''undefined'' ''indexOf''), s)
      | Some names \<Rightarrow>
          if entityName \<in> set names
          then updateTempEntitiesDisplay (s\<lparr>tempEntitiesList := Some (remove1 entityName names)\<rparr>)
          else (Returns, s))"

subsection \<open>Form handlers\<close>

text \<open>
  The outcome of one \<^verbatim>\<open>fetch\<close> followed by \<^verbatim>\<open>response.json()\<close>: either of the two
  promises rejects with an error carrying a message, or the body is delivered.
\<close>

datatype 'a fetched = Rejects string | Resolves 'a

record api_result =
  success :: bool
  resultMessage :: "string option"

text \<open>\<^verbatim>\<open>result.message || fallback\<close>.\<close>

definition messageOr :: "api_result \<Rightarrow> string \<Rightarrow> string" where
  "messageOr r fallback =
     (case resultMessage r of None \<Rightarrow> fallback | Some m \<Rightarrow> if m = [] then fallback else m)"

text \<open>
  The loop over \<^verbatim>\<open>tempEntitiesList\<close> in \<^verbatim>\<open>handleInsertMapWithEntities\<close>: one POST
  per name, in order; \<open>k\<close> is the position of the next name and \<open>entityResult k\<close> what
  the \<open>k\<close>-th POST comes back with. The accumulator holds the state,
  \<^verbatim>\<open>successCount\<close> and \<^verbatim>\<open>failedEntities\<close>.
\<close>

fun addEntities ::
  "string \<Rightarrow> (nat \<Rightarrow> api_result fetched) \<Rightarrow> nat \<Rightarrow> string list
     \<Rightarrow> app \<times> nat \<times> string list \<Rightarrow> app \<times> nat \<times> string list" where
  "addEntities traceNumber entityResult k [] acc = acc"
| "addEntities traceNumber entityResult k (entityName # rest) (s, successCount, failedEntities) =
     (let s1 = fetch POST (''/api/entities/map/'' @ traceNumber @ ''/add?entity_name=''
                           @ encodeURIComponent entityName) [] s
      in addEntities traceNumber entityResult (Suc k) rest
           (case entityResult k of
              Rejects msg \<Rightarrow> (s1, successCount, failedEntities @ [entityName])
            | Resolves r \<Rightarrow>
                if success r then (s1, Suc successCount, failedEntities)
                else (s1, successCount, failedEntities @ [entityName])))"

definition newline :: string where
  "newline = [CHR 0x0A]"

definition handleInsertMapWithEntities ::
  "string \<Rightarrow> string \<Rightarrow> string \<Rightarrow> api_result fetched \<Rightarrow> (nat \<Rightarrow> api_result fetched)
     \<Rightarrow> app \<Rightarrow> app" where
  "handleInsertMapWithEntities traceNumberValue drawerValue descriptionValue
       mapResponse entityResult s =
     (let traceNumber = trim traceNumberValue;
          drawer = trim drawerValue;
          description = trim descriptionValue
      in if traceNumber = [] \<or> drawer = [] \<or> description = []
         then alert ''Please fill in all required map fields.'' s
         else
           (case tempEntitiesList s of
              None \<Rightarrow>
                alert (''Error inserting map: ''
                       @ errorMessage (cannotRead ''undefined'' ''length'')) s
            | Some names \<Rightarrow>
                (case currentUser s of
                   None \<Rightarrow>
                     alert (''Error inserting map: ''
                            @ errorMessage (cannotRead ''null'' ''username'')) s
                 | Some u \<Rightarrow>
                     (let s1 = fetch POST ''/api/maps''
                                 [(''Number'', traceNumber), (''Drawer'', drawer),
                                  (''PropertyDetails'', description),
                                  (''CreatedBy'', username u)] s
                      in case mapResponse of
                           Rejects msg \<Rightarrow> alert (''Error inserting map: '' @ msg) s1
                         | Resolves mapResult \<Rightarrow>
                             if \<not> success mapResult
                             then alert (''Error inserting map: ''
                                         @ messageOr mapResult ''Failed to insert map'') s1
                             else
                               (let s2 =
                                      (if length names > 0
                                       then
                                         (case addEntities traceNumber entityResult 0 names
                                                 (s1, 0, []) of
                                            (s', successCount, failedEntities) \<Rightarrow>
                                              if length failedEntities = 0
                                              then alert (''Map and all '' @ show_nat successCount
                                                          @ '' entities inserted successfully!'') s'
                                              else alert (''Map inserted successfully!'' @ newline
                                                          @ show_nat successCount
                                                          @ '' entities added successfully.''
                                                          @ newline
                                                          @ show_nat (length failedEntities)
                                                          @ '' entities failed: ''
                                                          @ join '', '' failedEntities) s')
                                       else alert ''Map inserted successfully!'' s1)
                                in case updateTempEntitiesDisplay
                                          (s2\<lparr>tempEntitiesList := Some []\<rparr>) of
                                     (Returns, s3) \<Rightarrow> s3
                                   | (Throws e, s3) \<Rightarrow>
                                       alert (''Error inserting map: '' @ errorMessage e) s3)))))"

definition handleUpdateMap ::
  "string \<Rightarrow> string \<Rightarrow> api_result fetched \<Rightarrow> app \<Rightarrow> app" where
  "handleUpdateMap drawerValue descriptionValue response s =
     (let drawer = trim drawerValue;
          description = trim descriptionValue
      in if drawer = [] \<or> description = []
         then alert ''Please fill in both Drawer and Description fields.'' s
         else
           (let s1 = fetch PUT (''/api/maps/'' @ toString (selectedMapId s))
                       [(''Drawer'', drawer), (''PropertyDetails'', description)] s
            in case response of
                 Rejects msg \<Rightarrow> alert ''Network error while updating map'' s1
               | Resolves result \<Rightarrow>
                   if success result
                   then loadMapForEditing (alert ''Map updated successfully!'' s1)
                   else alert (messageOr result ''Failed to update map'') s1))"

subsection \<open>Entity letter filter\<close>

text \<open>
  A list response as the filter uses it; a name may be missing. Every way of not getting
  the list (a rejected request, a status that is not ok, a body without \<^verbatim>\<open>data\<close>) ends
  in the same \<^verbatim>\<open>catch\<close> and is one \<open>Rejects\<close>. The filter writes into the results
  container and the pagination block of the browse page; what it writes is returned as a
  \<open>filter_display\<close>, with \<open>None\<close> for a part it does not touch. The first argument of
  the filter is the platform's \<^verbatim>\<open>toLowerCase\<close>.
\<close>

record entity =
  EntityName :: "string option"
  BeismanNumber :: jsval


datatype results = StatusError string | NoRecords | EntityRows "entity list"

datatype info = StartingWith string nat | AllEntities nat


definition renderEntitiesResults :: "entity list \<Rightarrow> results" where
  "renderEntitiesResults entities = (if entities = [] then NoRecords else EntityRows entities)"


text \<open>The entity rows a results container shows.\<close>

fun rows :: "results \<Rightarrow> entity list" where
  "rows (EntityRows es) = es"
| "rows NoRecords = []"
| "rows (StatusError msg) = []"

subsection \<open>Notions used in the properties\<close>

text \<open>
  \<^verbatim>\<open>loadCurrentPage\<close> ends in the redirect of an admin guard exactly when there is a
  content area to render into, the page is one of the three guarded ones and the session
  is not an administrator's.
\<close>

abbreviation guardRedirects :: "app \<Rightarrow> bool" where
  "guardRedirects s \<equiv> contentArea s \<noteq> None \<and> \<not> isAdminUser s
     \<and> currentPage s \<in> {''admin-panel'', ''insert-map'', ''update-delete''}"

text \<open>The association request the loop sends for one name.\<close>

abbreviation postEntity :: "string \<Rightarrow> string \<Rightarrow> request" where
  "postEntity traceNumber entityName \<equiv>
     \<lparr>httpMethod = POST,
      url = ''/api/entities/map/'' @ traceNumber @ ''/add?entity_name=''
            @ encodeURIComponent entityName,
      body = []\<rparr>"

text \<open>A request comes back with \<^verbatim>\<open>success\<close> true.\<close>

abbreviation succeeds :: "api_result fetched \<Rightarrow> bool" where
  "succeeds r \<equiv> (case r of Rejects msg \<Rightarrow> False | Resolves b \<Rightarrow> success b)"





section \<open>Properties\<close>

subsection \<open>What the helpers leave alone\<close>

lemma frame_setInnerHTML [simp]:
  "pageHistory (setInnerHTML v s) = pageHistory s"
  "currentUser (setInnerHTML v s) = currentUser s"
  "selectedMapId (setInnerHTML v s) = selectedMapId s"
  "selectedEntityInfo (setInnerHTML v s) = selectedEntityInfo s"
  "tempEntitiesList (setInnerHTML v s) = tempEntitiesList s"
  "requests (setInnerHTML v s) = requests s"
  "alerts (setInnerHTML v s) = alerts s"
  "pathname (setInnerHTML v s) = pathname s"
  "contentArea (setInnerHTML v s) = map_option (\<lambda>vs. vs @ [v]) (contentArea s)"
  by (simp_all add: setInnerHTML_def)

lemma frame_fetch [simp]:
  "currentPage (fetch m u b s) = currentPage s"
  "pageHistory (fetch m u b s) = pageHistory s"
  "currentUser (fetch m u b s) = currentUser s"
  "selectedMapId (fetch m u b s) = selectedMapId s"
  "selectedEntityInfo (fetch m u b s) = selectedEntityInfo s"
  "tempEntitiesList (fetch m u b s) = tempEntitiesList s"
  "contentArea (fetch m u b s) = contentArea s"
  "alerts (fetch m u b s) = alerts s"
  "pathname (fetch m u b s) = pathname s"
  "requests (fetch m u b s) = requests s @ [\<lparr>httpMethod = m, url = u, body = b\<rparr>]"
  by (simp_all add: fetch_def)

lemma frame_alert [simp]:
  "currentPage (alert msg s) = currentPage s"
  "pageHistory (alert msg s) = pageHistory s"
  "currentUser (alert msg s) = currentUser s"
  "selectedMapId (alert msg s) = selectedMapId s"
  "selectedEntityInfo (alert msg s) = selectedEntityInfo s"
  "tempEntitiesList (alert msg s) = tempEntitiesList s"
  "contentArea (alert msg s) = contentArea s"
  "requests (alert msg s) = requests s"
  "pathname (alert msg s) = pathname s"
  "alerts (alert msg s) = alerts s @ [msg]"
  by (simp_all add: alert_def)

lemma frame_updateBrowserHistory [simp]:
  "pageHistory (updateBrowserHistory p m e s) = pageHistory s"
  "currentUser (updateBrowserHistory p m e s) = currentUser s"
  "selectedMapId (updateBrowserHistory p m e s) = selectedMapId s"
  "selectedEntityInfo (updateBrowserHistory p m e s) = selectedEntityInfo s"
  "tempEntitiesList (updateBrowserHistory p m e s) = tempEntitiesList s"
  "contentArea (updateBrowserHistory p m e s) = contentArea s"
  "requests (updateBrowserHistory p m e s) = requests s"
  "alerts (updateBrowserHistory p m e s) = alerts s"
  by (simp_all add: updateBrowserHistory_def Let_def)

lemma frame_updatePageTitle [simp]:
  "pageHistory (updatePageTitle s) = pageHistory s"
  "currentUser (updatePageTitle s) = currentUser s"
  "selectedMapId (updatePageTitle s) = selectedMapId s"
  "selectedEntityInfo (updatePageTitle s) = selectedEntityInfo s"
  "tempEntitiesList (updatePageTitle s) = tempEntitiesList s"
  "contentArea (updatePageTitle s) = contentArea s"
  "requests (updatePageTitle s) = requests s"
  "alerts (updatePageTitle s) = alerts s"
  "pathname (updatePageTitle s) = pathname s"
  by (simp_all add: updatePageTitle_def split: option.splits)

lemma isAdminUser_cong [simp]:
  "isAdminUser (setInnerHTML v s) = isAdminUser s"
  "isAdminUser (fetch m u b s) = isAdminUser s"
  "isAdminUser (alert msg s) = isAdminUser s"
  "isAdminUser (updateBrowserHistory p mi e s) = isAdminUser s"
  "isAdminUser (updatePageTitle s) = isAdminUser s"
  "isAdminUser (s\<lparr>currentPage := p\<rparr>) = isAdminUser s"
  "isAdminUser (s\<lparr>pageHistory := h\<rparr>) = isAdminUser s"
  by (simp_all add: isAdminUser_def)

lemma navigateTo_home_currentPage: "currentPage (navigateTo ''home'' a s) = ''home''"
  by (simp add: navigateTo.simps[of "''home''"] loadCurrentPage.simps Let_def loadHomePage_def)

lemma navigateTo_home_contentArea:
  "contentArea (navigateTo ''home'' a s) = map_option (\<lambda>vs. vs @ [LoadingView, HomeView]) (contentArea s)"
  by (cases "contentArea s") (simp_all add: navigateTo.simps[of "''home''"] loadCurrentPage.simps Let_def loadHomePage_def)

lemma frame_loaders [simp]:
  "currentPage (loadHomePage s) = currentPage s"
  "pageHistory (loadHomePage s) = pageHistory s"
  "selectedMapId (loadHomePage s) = selectedMapId s"
  "selectedEntityInfo (loadHomePage s) = selectedEntityInfo s"
  "currentUser (loadHomePage s) = currentUser s"
  "currentPage (loadBrowseMaps s) = currentPage s"
  "pageHistory (loadBrowseMaps s) = pageHistory s"
  "selectedMapId (loadBrowseMaps s) = selectedMapId s"
  "selectedEntityInfo (loadBrowseMaps s) = selectedEntityInfo s"
  "currentUser (loadBrowseMaps s) = currentUser s"
  "currentPage (loadBrowseEntities s) = currentPage s"
  "pageHistory (loadBrowseEntities s) = pageHistory s"
  "selectedMapId (loadBrowseEntities s) = selectedMapId s"
  "selectedEntityInfo (loadBrowseEntities s) = selectedEntityInfo s"
  "currentUser (loadBrowseEntities s) = currentUser s"
  "currentPage (loadMapDetails s) = currentPage s"
  "pageHistory (loadMapDetails s) = pageHistory s"
  "selectedMapId (loadMapDetails s) = selectedMapId s"
  "selectedEntityInfo (loadMapDetails s) = selectedEntityInfo s"
  "currentUser (loadMapDetails s) = currentUser s"
  "currentPage (loadEntityDetails s) = currentPage s"
  "pageHistory (loadEntityDetails s) = pageHistory s"
  "selectedMapId (loadEntityDetails s) = selectedMapId s"
  "selectedEntityInfo (loadEntityDetails s) = selectedEntityInfo s"
  "currentUser (loadEntityDetails s) = currentUser s"
  "currentPage (loadMapForEditing s) = currentPage s"
  "pageHistory (loadMapForEditing s) = pageHistory s"
  "selectedMapId (loadMapForEditing s) = selectedMapId s"
  "selectedEntityInfo (loadMapForEditing s) = selectedEntityInfo s"
  "currentUser (loadMapForEditing s) = currentUser s"
  "currentPage (showAdminStatus s) = currentPage s"
  "pageHistory (showAdminStatus s) = pageHistory s"
  "selectedMapId (showAdminStatus s) = selectedMapId s"
  "selectedEntityInfo (showAdminStatus s) = selectedEntityInfo s"
  "currentUser (showAdminStatus s) = currentUser s"
  by (simp_all add: loadHomePage_def loadBrowseMaps_def loadBrowseEntities_def
        loadMapDetails_def loadMapDetailsData_def loadEntityDetails_def
        loadEntityDetailsData_def loadMapPreviewForEntity_def
        loadRelatedEntitiesForEntity_def loadMapForEditing_def showAdminStatus_def Let_def
        split: option.splits)

lemma navigateTo_home_pageHistory:
  "pageHistory (navigateTo ''home'' a s) =
     (if a \<and> currentPage s \<noteq> ''home'' then pageHistory s @ [currentPage s] else pageHistory s)"
  by (auto simp add: navigateTo.simps[of "''home''"] loadCurrentPage.simps Let_def)

lemma navigateTo_home_frame:
  "selectedMapId (navigateTo ''home'' a s) = selectedMapId s"
  "selectedEntityInfo (navigateTo ''home'' a s) = selectedEntityInfo s"
  "currentUser (navigateTo ''home'' a s) = currentUser s"
  by (simp_all add: navigateTo.simps[of "''home''"] loadCurrentPage.simps Let_def)

lemma loadCurrentPage_currentPage:
  "currentPage (loadCurrentPage s) = (if guardRedirects s then ''home'' else currentPage s)"
  by (simp add: loadCurrentPage.simps loadAdminPanel.simps loadInsertMap.simps
        loadUpdateDelete.simps navigateTo_home_currentPage Let_def)

lemma loadCurrentPage_pageHistory:
  "pageHistory (loadCurrentPage s) =
     (if guardRedirects s then pageHistory s @ [currentPage s] else pageHistory s)"
  by (simp add: loadCurrentPage.simps loadAdminPanel.simps loadInsertMap.simps
        loadUpdateDelete.simps navigateTo_home_pageHistory Let_def)

lemma loadCurrentPage_frame:
  "selectedMapId (loadCurrentPage s) = selectedMapId s"
  "selectedEntityInfo (loadCurrentPage s) = selectedEntityInfo s"
  "currentUser (loadCurrentPage s) = currentUser s"
  by (simp_all add:  loadCurrentPage.simps loadAdminPanel.simps loadInsertMap.simps
        loadUpdateDelete.simps navigateTo_home_frame Let_def)


subsection \<open>Admin guard\<close>

text \<open>
  C1. Rendering the admin panel, the insert-map page or the update-delete page without an
  administrator session (no current user, or a current user whose \<^verbatim>\<open>isAdmin\<close> is false
  or otherwise falsy) navigates to \<^verbatim>\<open>home\<close>: the current page ends as \<^verbatim>\<open>home\<close>, and
  the only contents written to the content area are the loading placeholder and the home
  page, never the content of the guarded page. The same holds for a navigation to one of
  the three pages in a document that has a content area.
\<close>

theorem admin_pages_redirect_home:
  assumes "\<not> isAdminUser s"
  shows "currentPage (loadAdminPanel s) = ''home''
       \<and> currentPage (loadInsertMap s) = ''home''
       \<and> currentPage (loadUpdateDelete s) = ''home''
       \<and> contentArea (loadAdminPanel s)
           = map_option (\<lambda>vs. vs @ [LoadingView, HomeView]) (contentArea s)
       \<and> contentArea (loadInsertMap s)
           = map_option (\<lambda>vs. vs @ [LoadingView, HomeView]) (contentArea s)
       \<and> contentArea (loadUpdateDelete s)
           = map_option (\<lambda>vs. vs @ [LoadingView, HomeView]) (contentArea s)
       \<and> (contentArea s \<noteq> None
            \<and> page \<in> {''admin-panel'', ''insert-map'', ''update-delete''} \<longrightarrow>
          currentPage (navigateTo page addToHistory s) = ''home'')"
  using assms
  by (auto simp add: loadAdminPanel.simps loadInsertMap.simps loadUpdateDelete.simps
        navigateTo_home_currentPage navigateTo_home_contentArea
        navigateTo.simps [of page] loadCurrentPage_currentPage Let_def)

theorem admin_pages_redirect_home_witness:
  "\<not> isAdminUser (constructor ''/admin-panel'')
   \<and> currentPage (loadAdminPanel (constructor ''/admin-panel'')) = ''home''
   \<and> contentArea (loadAdminPanel (constructor ''/admin-panel'')) = Some [LoadingView, HomeView]
   \<and> currentPage (navigateTo ''update-delete'' True (constructor ''/'')) = ''home''
   \<and> \<not> isAdminUser ((constructor ''/insert-map'')
          \<lparr>currentUser := Some \<lparr>username = ''guest'', displayName = ''Guest'',
                                 isAdmin = JBool False, userSessionId = JNull\<rparr>\<rparr>)
   \<and> currentPage (loadInsertMap ((constructor ''/insert-map'')
          \<lparr>currentUser := Some \<lparr>username = ''guest'', displayName = ''Guest'',
                                 isAdmin = JBool False, userSessionId = JNull\<rparr>\<rparr>)) = ''home''
   \<and> currentPage (loadUpdateDelete ((constructor ''/insert-map'')
          \<lparr>currentUser := Some \<lparr>username = ''guest'', displayName = ''Guest'',
                                 isAdmin = JBool False, userSessionId = JNull\<rparr>\<rparr>)) = ''home''"
  using admin_pages_redirect_home [of "constructor ''/admin-panel''"]
    admin_pages_redirect_home [of "constructor ''/''" "''update-delete''" True]
    admin_pages_redirect_home [of "(constructor ''/insert-map'')
          \<lparr>currentUser := Some \<lparr>username = ''guest'', displayName = ''Guest'',
                                 isAdmin = JBool False, userSessionId = JNull\<rparr>\<rparr>"]
  by (simp add: isAdminUser_def constructor_def)

subsection \<open>Back navigation\<close>

text \<open>
  C8, as amended. \<^verbatim>\<open>goBack\<close> is a total function of the state: none of its steps
  raises. On an empty \<^verbatim>\<open>pageHistory\<close> it navigates to \<^verbatim>\<open>home\<close> and the stack stays
  empty. On a non-empty stack it pops the top entry and navigates to it with
  \<^verbatim>\<open>addToHistory = false\<close>: the current page becomes the popped entry and the stack is
  the old one without its top, unless the popped entry is one of the three guarded pages,
  the session is not an administrator's and the document has a content area. In that
  case the guard of the page's renderer navigates on to \<^verbatim>\<open>home\<close> with
  \<^verbatim>\<open>addToHistory = true\<close>, which pushes the popped entry back: the current page ends
  as \<^verbatim>\<open>home\<close> and the stack is as it was before the call.
\<close>

theorem goBack_history:
  "(pageHistory s = [] \<longrightarrow>
      currentPage (goBack s) = ''home'' \<and> pageHistory (goBack s) = [])
   \<and> (pageHistory s \<noteq> []
        \<and> \<not> (contentArea s \<noteq> None \<and> \<not> isAdminUser s
               \<and> last (pageHistory s) \<in> {''admin-panel'', ''insert-map'', ''update-delete''}) \<longrightarrow>
      currentPage (goBack s) = last (pageHistory s)
      \<and> pageHistory (goBack s) = butlast (pageHistory s))
   \<and> (pageHistory s \<noteq> []
        \<and> contentArea s \<noteq> None \<and> \<not> isAdminUser s
        \<and> last (pageHistory s) \<in> {''admin-panel'', ''insert-map'', ''update-delete''} \<longrightarrow>
      currentPage (goBack s) = ''home'' \<and> pageHistory (goBack s) = pageHistory s)"
  by (auto simp add: goBack_def navigateTo.simps loadCurrentPage_currentPage
        loadCurrentPage_pageHistory Let_def)

theorem goBack_history_witness:
  "pageHistory ((constructor ''/browse-maps'')\<lparr>pageHistory := []\<rparr>) = []
   \<and> currentPage (goBack ((constructor ''/browse-maps'')\<lparr>pageHistory := []\<rparr>)) = ''home''
   \<and> pageHistory (goBack ((constructor ''/browse-maps'')\<lparr>pageHistory := []\<rparr>)) = []
   \<and> currentPage (goBack ((constructor ''/map-details/7'')
         \<lparr>currentPage := ''map-details'', pageHistory := [''home'', ''browse-maps'']\<rparr>))
       = ''browse-maps''
   \<and> pageHistory (goBack ((constructor ''/map-details/7'')
         \<lparr>currentPage := ''map-details'', pageHistory := [''home'', ''browse-maps'']\<rparr>))
       = [''home'']
   \<and> currentPage (goBack ((constructor ''/browse-maps'')
         \<lparr>currentPage := ''browse-maps'', pageHistory := [''home'', ''insert-map'']\<rparr>))
       = ''home''
   \<and> pageHistory (goBack ((constructor ''/browse-maps'')
         \<lparr>currentPage := ''browse-maps'', pageHistory := [''home'', ''insert-map'']\<rparr>))
       = [''home'', ''insert-map'']"
  using goBack_history [of "(constructor ''/browse-maps'')\<lparr>pageHistory := []\<rparr>"]
    goBack_history [of "(constructor ''/map-details/7'')
         \<lparr>currentPage := ''map-details'', pageHistory := [''home'', ''browse-maps'']\<rparr>"]
    goBack_history [of "(constructor ''/browse-maps'')
         \<lparr>currentPage := ''browse-maps'', pageHistory := [''home'', ''insert-map'']\<rparr>"]
  by (simp add: constructor_def isAdminUser_def)

text \<open>
  The claim as first stated (on a non-empty stack the call ends on the popped entry and
  has pushed nothing) fails in the state the application is in after it was opened at
  \<^verbatim>\<open>/admin-panel\<close> with nobody logged in. The stack then holds \<^verbatim>\<open>home\<close> and
  \<^verbatim>\<open>admin-panel\<close>; \<^verbatim>\<open>goBack\<close> pops \<^verbatim>\<open>admin-panel\<close>, the guard sends it on to
  \<^verbatim>\<open>home\<close>, and the stack holds both entries again.
\<close>

lemma opened_at_admin_panel:
  "snd (loadInitialRoute (constructor ''/admin-panel'')) =
     \<lparr>currentUser = None, currentPage = ''home'', sessionId = JNull,
      pageHistory = [''home'', ''admin-panel''], selectedMapId = JNull,
      selectedEntityInfo = None, tempEntitiesList = None, pathname = ''/'',
      pushedStates = [(\<lparr>statePage = ''home'', stateSelectedMapId = JNull,
                         stateSelectedEntityInfo = None\<rparr>, ''/'')],
      pageTitle = Some ''Beisman Map Menu'',
      contentArea = Some [LoadingView, LoadingView, HomeView],
      adminStatus = False, alerts = [], requests = []\<rparr>"
  by (simp add: loadInitialRoute_def constructor_def Let_def loadCurrentPage.simps
        loadAdminPanel.simps navigateTo.simps isAdminUser_def updatePageTitle_def
        pageTitles_def updateBrowserHistory_def setInnerHTML_def loadHomePage_def)

theorem goBack_counterexample:
  "pageHistory (snd (loadInitialRoute (constructor ''/admin-panel''))) = [''home'', ''admin-panel'']
   \<and> currentPage (goBack (snd (loadInitialRoute (constructor ''/admin-panel'')))) = ''home''
   \<and> currentPage (goBack (snd (loadInitialRoute (constructor ''/admin-panel''))))
       \<noteq> last (pageHistory (snd (loadInitialRoute (constructor ''/admin-panel''))))
   \<and> pageHistory (goBack (snd (loadInitialRoute (constructor ''/admin-panel''))))
       = [''home'', ''admin-panel'']
   \<and> pageHistory (goBack (snd (loadInitialRoute (constructor ''/admin-panel''))))
       \<noteq> butlast (pageHistory (snd (loadInitialRoute (constructor ''/admin-panel''))))"
  unfolding opened_at_admin_panel
  by (simp add: goBack_def navigateTo.simps loadCurrentPage_currentPage
        loadCurrentPage_pageHistory Let_def isAdminUser_def)

subsection \<open>Routes and addresses\<close>

lemma loadInitialRoute_map_details_42:
  "pathname s = ''/map-details/42'' \<Longrightarrow>
   loadInitialRoute s =
     (Returns, loadCurrentPage (updatePageTitle
                 (s\<lparr>currentPage := ''map-details'', selectedMapId := JStr ''42''\<rparr>)))"
  by (simp add: loadInitialRoute_def startsWith_def js_split_def splitFrom.simps at_index_def
        Let_def)

lemma pathname_updateBrowserHistory_42:
  "pathname (updateBrowserHistory ''map-details'' (JNum 42) None s) = ''/map-details/42''"
  by (simp add: updateBrowserHistory_def Let_def show_int_def show_nat.simps digit_def)

text \<open>
  C3. From any state, \<^verbatim>\<open>updateBrowserHistory('map-details', 42)\<close> leaves the address
  bar at \<^verbatim>\<open>/map-details/42\<close> (pushed, or already there), and \<^verbatim>\<open>loadInitialRoute\<close> on
  that address returns with \<^verbatim>\<open>currentPage = 'map-details'\<close> and the string
  \<^verbatim>\<open>'42'\<close> as \<^verbatim>\<open>selectedMapId\<close>.
\<close>

theorem url_round_trip:
  "pathname (updateBrowserHistory ''map-details'' (JNum 42) None s) = ''/map-details/42''
   \<and> fst (loadInitialRoute (updateBrowserHistory ''map-details'' (JNum 42) None s)) = Returns
   \<and> currentPage (snd (loadInitialRoute (updateBrowserHistory ''map-details'' (JNum 42) None s)))
       = ''map-details''
   \<and> selectedMapId (snd (loadInitialRoute (updateBrowserHistory ''map-details'' (JNum 42) None s)))
       = JStr ''42''"
  by (simp add: pathname_updateBrowserHistory_42
        loadInitialRoute_map_details_42 [OF pathname_updateBrowserHistory_42]
        loadCurrentPage_currentPage loadCurrentPage_frame)

theorem url_round_trip_witness:
  "pathname (updateBrowserHistory ''map-details'' (JNum 42) None (constructor ''/browse-maps''))
     = ''/map-details/42''
   \<and> pushedStates (updateBrowserHistory ''map-details'' (JNum 42) None (constructor ''/browse-maps''))
     = [(\<lparr>statePage = ''map-details'', stateSelectedMapId = JNum 42,
          stateSelectedEntityInfo = None\<rparr>, ''/map-details/42'')]
   \<and> selectedMapId (snd (loadInitialRoute
        (updateBrowserHistory ''map-details'' (JNum 42) None (constructor ''/browse-maps''))))
     = JStr ''42''"
  using url_round_trip [of "constructor ''/browse-maps''"]
  by (simp add: updateBrowserHistory_def constructor_def Let_def show_int_def show_nat.simps
        digit_def)

text \<open>
  What holds of \<^verbatim>\<open>loadInitialRoute\<close> on every address: the page it leaves is one of
  the eight pages, an address it does not recognise gives \<^verbatim>\<open>home\<close>, the selected map
  changes only for an address \<^verbatim>\<open>/map-details/\<close> followed by something, and the only
  way not to return is the \<^verbatim>\<open>URIError\<close> of \<^verbatim>\<open>decodeURIComponent\<close> on an address
  under \<^verbatim>\<open>/entity-details/\<close>.
\<close>

lemma loadInitialRoute_known_page:
  "currentPage (snd (loadInitialRoute s)) \<in>
     {''home'', ''admin-panel'', ''browse-maps'', ''browse-entities'', ''map-details'',
      ''entity-details'', ''insert-map'', ''update-delete''}"
  by (simp add: loadInitialRoute_def Let_def loadCurrentPage_currentPage split: sum.splits)

lemma loadInitialRoute_default_home:
  "pathname s \<notin> {''/'', [], ''/admin-panel'', ''/browse-maps'', ''/browse-entities'',
                   ''/insert-map'', ''/update-delete''} \<Longrightarrow>
   \<not> startsWith (pathname s) ''/map-details/'' \<Longrightarrow>
   \<not> startsWith (pathname s) ''/entity-details/'' \<Longrightarrow>
   fst (loadInitialRoute s) = Returns \<and> currentPage (snd (loadInitialRoute s)) = ''home''"
  by (simp add: loadInitialRoute_def Let_def loadCurrentPage_currentPage)

lemma loadInitialRoute_selectedMapId:
  assumes "selectedMapId (snd (loadInitialRoute s)) \<noteq> selectedMapId s"
  shows "startsWith (pathname s) ''/map-details/'' \<and> pathname s \<noteq> ''/map-details/''"
proof (rule conjI)
  show "startsWith (pathname s) ''/map-details/''"
    using assms
    by (simp add: loadInitialRoute_def Let_def loadCurrentPage_frame
          split: sum.splits if_splits)
next
  show "pathname s \<noteq> ''/map-details/''"
  proof
    assume "pathname s = ''/map-details/''"
    then have "selectedMapId (snd (loadInitialRoute s)) = selectedMapId s"
      by (simp add: loadInitialRoute_def Let_def loadCurrentPage_frame startsWith_def
            js_split_def splitFrom.simps at_index_def)
    with assms show False by simp
  qed
qed

lemma loadInitialRoute_throws_only:
  "fst (loadInitialRoute s) = Returns
   \<or> (fst (loadInitialRoute s) = Throws URIError
       \<and> startsWith (pathname s) ''/entity-details/'')"
  by (auto simp add: loadInitialRoute_def Let_def decodeURIComponent_def
        split: sum.splits option.splits)

text \<open>
  C10. On the address \<^verbatim>\<open>/entity-details/%\<close> the route loader does not return: the
  segment \<^verbatim>\<open>%\<close> is not a percent-escape, \<^verbatim>\<open>decodeURIComponent\<close> raises
  \<^verbatim>\<open>URIError\<close>, and the loader is left after it has set the page to
  \<^verbatim>\<open>entity-details\<close> and before it updates the title or renders anything.
\<close>

theorem loadInitialRoute_malformed_escape:
  "loadInitialRoute (constructor ''/entity-details/%'')
     = (Throws URIError, (constructor ''/entity-details/%'')\<lparr>currentPage := ''entity-details''\<rparr>)"
  by (simp add: loadInitialRoute_def constructor_def startsWith_def js_split_def
        splitFrom.simps at_index_def decodeURIComponent_def Let_def)

subsection \<open>Pagination controls\<close>

text \<open>
  C4. The pagination controls are gated on the page bounds: a Previous button is rendered
  exactly when there is more than one page and the current page is beyond the first, a Next
  button exactly when there is more than one page and the current page is before the last.
  So with more than one page, page 1 shows only Next, the last page only Previous, and a
  page strictly between shows Previous and then Next (with three pages: page 2).
\<close>

theorem pagination_gated_on_bounds:
  "(''Previous'' \<in> caption ` set (renderPaginationButtons cp tp ty) \<longleftrightarrow> 1 < tp \<and> 1 < cp)
   \<and> (''Next'' \<in> caption ` set (renderPaginationButtons cp tp ty) \<longleftrightarrow> 1 < tp \<and> cp < tp)
   \<and> (1 < tp \<longrightarrow> map caption (renderPaginationButtons 1 tp ty) = [''Next''])
   \<and> (1 < tp \<longrightarrow> map caption (renderPaginationButtons tp tp ty) = [''Previous''])
   \<and> (1 < cp \<and> cp < tp \<longrightarrow>
        renderPaginationButtons cp tp ty
          = [\<lparr>caption = ''Previous'', onclick = LoadPage ty (cp - 1)\<rparr>,
             \<lparr>caption = ''Next'', onclick = LoadPage ty (cp + 1)\<rparr>])"
  by (auto simp add: renderPaginationButtons_def)

theorem pagination_gated_on_bounds_witness:
  "map caption (renderPaginationButtons 2 3 ''maps'') = [''Previous'', ''Next'']
   \<and> map caption (renderPaginationButtons 1 3 ''maps'') = [''Next'']
   \<and> map caption (renderPaginationButtons 3 3 ''maps'') = [''Previous'']
   \<and> ''Previous'' \<notin> caption ` set (renderPaginationButtons 1 3 ''maps'')
   \<and> ''Next'' \<notin> caption ` set (renderPaginationButtons 3 3 ''maps'')"
  using pagination_gated_on_bounds [of 2 3 "''maps''"]
    pagination_gated_on_bounds [of 1 3 "''maps''"]
    pagination_gated_on_bounds [of 3 3 "''maps''"]
  by simp

text \<open>
  C9. \<^verbatim>\<open>loadPage\<close> returns the state it was given, whatever its arguments; every
  rendered pagination button calls \<^verbatim>\<open>loadPage\<close> with the list type it was rendered
  for, so a click on it changes no field of the state and in particular adds no request.
\<close>

theorem pagination_buttons_inert:
  "loadPage ty pg s = s
   \<and> (\<forall>b \<in> set (renderPaginationButtons cp tp ty).
         (\<exists>target. onclick b = LoadPage ty target) \<and> click b s = s
         \<and> requests (click b s) = requests s)"
  by (auto simp add: renderPaginationButtons_def loadPage_def)

theorem pagination_buttons_inert_witness:
  "set (renderPaginationButtons 2 3 ''entities'')
     = {\<lparr>caption = ''Previous'', onclick = LoadPage ''entities'' 1\<rparr>,
        \<lparr>caption = ''Next'', onclick = LoadPage ''entities'' 3\<rparr>}
   \<and> click \<lparr>caption = ''Previous'', onclick = LoadPage ''entities'' 1\<rparr>
        (constructor ''/browse-entities'') = constructor ''/browse-entities''
   \<and> click \<lparr>caption = ''Next'', onclick = LoadPage ''entities'' 3\<rparr>
        (constructor ''/browse-entities'') = constructor ''/browse-entities''"
  using pagination_buttons_inert [of "''entities''" 1 "constructor ''/browse-entities''" 2 3]
  by (simp add: renderPaginationButtons_def)

subsection \<open>Temporary entity list\<close>

lemma updateTempEntitiesDisplay_defined:
  "tempEntitiesList s = Some names \<Longrightarrow> fst (updateTempEntitiesDisplay s) = Returns"
  by (simp add: updateTempEntitiesDisplay_def split: option.splits view.splits)

lemma frame_updateTempEntitiesDisplay [simp]:
  "tempEntitiesList (snd (updateTempEntitiesDisplay s)) = tempEntitiesList s"
  "alerts (snd (updateTempEntitiesDisplay s)) = alerts s"
  "requests (snd (updateTempEntitiesDisplay s)) = requests s"
  "currentUser (snd (updateTempEntitiesDisplay s)) = currentUser s"
  "currentPage (snd (updateTempEntitiesDisplay s)) = currentPage s"
  "pageHistory (snd (updateTempEntitiesDisplay s)) = pageHistory s"
  "selectedMapId (snd (updateTempEntitiesDisplay s)) = selectedMapId s"
  "selectedEntityInfo (snd (updateTempEntitiesDisplay s)) = selectedEntityInfo s"
  by (simp_all add: updateTempEntitiesDisplay_def split: option.splits view.splits)

text \<open>
  C6. Adding a name that passes validation and is not yet in the temporary list appends
  it without an alert; adding the same input again returns with the alert
  \<^verbatim>\<open>This entity is already in the list.\<close> and changes nothing else, so the list keeps
  its length. On the freshly rendered insert-map page the list then holds the one name.
\<close>

theorem duplicate_temp_entity_rejected:
  assumes "tempEntitiesList s = Some names"
    and "trim v \<noteq> []" and "js_length (trim v) \<le> 255" and "trim v \<notin> set names"
  shows "fst (addTempEntity v s) = Returns
       \<and> tempEntitiesList (snd (addTempEntity v s)) = Some (names @ [trim v])
       \<and> alerts (snd (addTempEntity v s)) = alerts s
       \<and> addTempEntity v (snd (addTempEntity v s))
           = (Returns, (snd (addTempEntity v s))
                \<lparr>alerts := alerts (snd (addTempEntity v s))
                             @ [''This entity is already in the list.'']\<rparr>)"
proof -
  let ?s1 = "s\<lparr>tempEntitiesList := Some (names @ [trim v])\<rparr>"
  have first: "addTempEntity v s = updateTempEntitiesDisplay ?s1"
    using assms by (simp add: addTempEntity_def Let_def)
  have ret: "fst (addTempEntity v s) = Returns"
    unfolding first by (rule updateTempEntitiesDisplay_defined [of _ "names @ [trim v]"]) simp
  have lst: "tempEntitiesList (snd (addTempEntity v s)) = Some (names @ [trim v])"
    unfolding first by simp
  have al: "alerts (snd (addTempEntity v s)) = alerts s"
    unfolding first by simp
  have "addTempEntity v (snd (addTempEntity v s))
          = (Returns, alert ''This entity is already in the list.'' (snd (addTempEntity v s)))"
    using assms lst by (simp add: addTempEntity_def Let_def)
  with ret lst al show ?thesis by (simp add: alert_def)
qed

theorem duplicate_temp_entity_rejected_witness:
  "tempEntitiesList (loadInsertMap ((constructor ''/insert-map'')
       \<lparr>currentUser := Some \<lparr>username = ''admin'', displayName = ''Administrator'',
                              isAdmin = JBool True, userSessionId = JNull\<rparr>\<rparr>)) = Some []
   \<and> tempEntitiesList (snd (addTempEntity ''Acme'' (snd (addTempEntity ''Acme''
        (loadInsertMap ((constructor ''/insert-map'')
          \<lparr>currentUser := Some \<lparr>username = ''admin'', displayName = ''Administrator'',
                                 isAdmin = JBool True, userSessionId = JNull\<rparr>\<rparr>)))))) = Some [''Acme'']
   \<and> alerts (snd (addTempEntity ''Acme'' (snd (addTempEntity ''Acme''
        (loadInsertMap ((constructor ''/insert-map'')
          \<lparr>currentUser := Some \<lparr>username = ''admin'', displayName = ''Administrator'',
                                 isAdmin = JBool True, userSessionId = JNull\<rparr>\<rparr>))))))
       = [''This entity is already in the list.'']"
proof -
  let ?s = "loadInsertMap ((constructor ''/insert-map'')
       \<lparr>currentUser := Some \<lparr>username = ''admin'', displayName = ''Administrator'',
                              isAdmin = JBool True, userSessionId = JNull\<rparr>\<rparr>)"
  have t: "trim ''Acme'' = ''Acme''"
    by (simp add: trim_def trimStart.simps trimEnd.simps leadingSpace_def trailingSpace_def
          whiteSpace_def)
  have l: "js_length ''Acme'' \<le> 255"
    by (simp add: js_length_def byte_def)
  have e: "tempEntitiesList ?s = Some []" "alerts ?s = []"
    by (simp_all add: loadInsertMap.simps isAdminUser_def constructor_def)
  show ?thesis
    using duplicate_temp_entity_rejected [of ?s "[]" "''Acme''"] t l e
    by simp
qed

subsection \<open>Client-side validation\<close>

text \<open>
  C7. Each client-side validation failure ends the handler with one alert and nothing
  else: the state is the old one with the message appended to the alerts, so no request
  was sent and no application field changed. The failures are an empty (after trimming)
  required field of the insert form or of the update form, an empty entity name, an
  entity name of more than 255 code units, and an entity name already in the temporary
  list.
\<close>

theorem validation_failures_only_alert:
  "(trim t = [] \<or> trim d = [] \<or> trim p = [] \<longrightarrow>
      handleInsertMapWithEntities t d p mapResponse entityResult s
        = s\<lparr>alerts := alerts s @ [''Please fill in all required map fields.'']\<rparr>)
   \<and> (trim d = [] \<or> trim p = [] \<longrightarrow>
      handleUpdateMap d p response s
        = s\<lparr>alerts := alerts s @ [''Please fill in both Drawer and Description fields.'']\<rparr>)
   \<and> (trim v = [] \<longrightarrow>
      addTempEntity v s = (Returns, s\<lparr>alerts := alerts s @ [''Please enter an entity name.'']\<rparr>))
   \<and> (trim v \<noteq> [] \<and> 255 < js_length (trim v) \<longrightarrow>
      addTempEntity v s
        = (Returns, s\<lparr>alerts := alerts s
             @ [''Entity name is too long. Please keep it under 255 characters.'']\<rparr>))
   \<and> (trim v \<noteq> [] \<and> js_length (trim v) \<le> 255
        \<and> tempEntitiesList s = Some names \<and> trim v \<in> set names \<longrightarrow>
      addTempEntity v s
        = (Returns, s\<lparr>alerts := alerts s @ [''This entity is already in the list.'']\<rparr>))"
  by (simp add: handleInsertMapWithEntities_def handleUpdateMap_def addTempEntity_def
        alert_def Let_def)

lemma trim_blank: "trim ''  '' = []"
  by (simp add: trim_def trimStart.simps trimEnd.simps leadingSpace_def trailingSpace_def
        whiteSpace_def)

lemma trim_Acme: "trim ''Acme'' = ''Acme''"
  by (simp add: trim_def trimStart.simps trimEnd.simps leadingSpace_def trailingSpace_def
        whiteSpace_def)

lemma trim_long: "trim (replicate 256 CHR ''a'') = replicate 256 CHR ''a''"
proof -
  have a: "replicate 256 CHR ''a'' = CHR ''a'' # replicate 255 CHR ''a''"
    by (simp add: replicate_Suc [symmetric] del: replicate_Suc)
  have b: "replicate 256 CHR ''a'' = replicate 255 CHR ''a'' @ [CHR ''a'']"
    by (subst a) (simp only: replicate_append_same)
  have "leadingSpace (replicate 256 CHR ''a'') = 0"
    by (subst a) (simp add: leadingSpace_def whiteSpace_def)
  moreover have "trailingSpace (replicate 256 CHR ''a'') = 0"
    by (subst b) (simp add: trailingSpace_def whiteSpace_def)
  ultimately show ?thesis
    by (simp add: trim_def trimStart.simps trimEnd.simps)
qed

lemma length_long: "js_length (replicate 256 CHR ''a'') = 256"
  by (simp add: js_length_def byte_def)

theorem validation_failures_only_alert_witness:
  "handleInsertMapWithEntities ''  '' ''D1'' ''A plot'' (Resolves \<lparr>success = True, resultMessage = None\<rparr>)
       (\<lambda>k. Rejects []) (constructor ''/insert-map'')
     = (constructor ''/insert-map'')\<lparr>alerts := [''Please fill in all required map fields.'']\<rparr>
   \<and> handleUpdateMap ''D1'' ''  '' (Rejects []) (constructor ''/update-delete'')
     = (constructor ''/update-delete'')
         \<lparr>alerts := [''Please fill in both Drawer and Description fields.'']\<rparr>
   \<and> addTempEntity ''  '' (constructor ''/insert-map'')
     = (Returns, (constructor ''/insert-map'')\<lparr>alerts := [''Please enter an entity name.'']\<rparr>)
   \<and> addTempEntity (replicate 256 CHR ''a'') (constructor ''/insert-map'')
     = (Returns, (constructor ''/insert-map'')
          \<lparr>alerts := [''Entity name is too long. Please keep it under 255 characters.'']\<rparr>)
   \<and> addTempEntity ''Acme'' ((constructor ''/insert-map'')\<lparr>tempEntitiesList := Some [''Acme'']\<rparr>)
     = (Returns, (constructor ''/insert-map'')
          \<lparr>tempEntitiesList := Some [''Acme''],
            alerts := [''This entity is already in the list.'']\<rparr>)
   \<and> requests ((constructor ''/insert-map'')\<lparr>alerts := [''Please fill in all required map fields.'']\<rparr>) = []"
  using validation_failures_only_alert [of "''  ''" "''D1''" "''A plot''"
      "Resolves \<lparr>success = True, resultMessage = None\<rparr>" "\<lambda>k. Rejects []"
      "constructor ''/insert-map''" "Rejects []" "''  ''" "[]"]
    validation_failures_only_alert [of "''x''" "''D1''" "''  ''"
      "Resolves \<lparr>success = True, resultMessage = None\<rparr>" "\<lambda>k. Rejects []"
      "constructor ''/update-delete''" "Rejects []" "replicate 256 CHR ''a''" "[]"]
    validation_failures_only_alert [of "''x''" "''D1''" "''  ''"
      "Resolves \<lparr>success = True, resultMessage = None\<rparr>" "\<lambda>k. Rejects []"
      "constructor ''/insert-map''" "Rejects []" "replicate 256 CHR ''a''" "[]"]
    validation_failures_only_alert [of "''x''" "''D1''" "''  ''"
      "Resolves \<lparr>success = True, resultMessage = None\<rparr>" "\<lambda>k. Rejects []"
      "(constructor ''/insert-map'')\<lparr>tempEntitiesList := Some [''Acme'']\<rparr>" "Rejects []"
      "''Acme''" "[''Acme'']"]
    trim_blank trim_Acme trim_long length_long
  by (simp add: constructor_def js_length_def byte_def)

subsection \<open>Entity letter filter\<close>

lemma rows_renderEntitiesResults [simp]: "rows (renderEntitiesResults es) = es"
  by (simp add: renderEntitiesResults_def)









subsection \<open>Inserting a map with entities\<close>

lemma addEntities_append:
  "addEntities tn er k (xs @ ys) acc
     = addEntities tn er (k + length xs) ys (addEntities tn er k xs acc)"
proof (induction xs arbitrary: k acc)
  case Nil
  then show ?case by simp
next
  case (Cons x xs)
  obtain s c f where acc: "acc = (s, c, f)" by (cases acc)
  show ?case
    by (simp add: acc Cons.IH Let_def)
qed

lemma addEntities_all_succeed:
  assumes "\<forall>j < length xs. succeeds (er (k + j))"
  shows "\<exists>s'. addEntities tn er k xs (s, c, f) = (s', c + length xs, f)
              \<and> requests s' = requests s @ map (postEntity tn) xs
              \<and> alerts s' = alerts s \<and> tempEntitiesList s' = tempEntitiesList s
              \<and> contentArea s' = contentArea s"
  using assms
proof (induction xs arbitrary: k s c)
  case Nil
  then show ?case by simp
next
  case (Cons x xs)
  from Cons.prems have here: "succeeds (er k)" by auto
  from Cons.prems have rest: "\<forall>j < length xs. succeeds (er (Suc k + j))" by auto
  let ?s1 = "fetch POST (''/api/entities/map/'' @ tn @ ''/add?entity_name=''
                         @ encodeURIComponent x) [] s"
  from here have step: "addEntities tn er k (x # xs) (s, c, f)
                          = addEntities tn er (Suc k) xs (?s1, Suc c, f)"
    by (simp add: Let_def split: fetched.splits)
  from Cons.IH [OF rest, of ?s1 "Suc c"] obtain s' where
    "addEntities tn er (Suc k) xs (?s1, Suc c, f) = (s', Suc c + length xs, f)"
    "requests s' = requests ?s1 @ map (postEntity tn) xs"
    "alerts s' = alerts ?s1" "tempEntitiesList s' = tempEntitiesList ?s1"
    "contentArea s' = contentArea ?s1"
    by blast
  then show ?case
    unfolding step by (simp add: fetch_def)
qed

lemma show_nat_1: "show_nat (Suc 0) = ''1''"
  by (simp add: show_nat.simps digit_def)

lemma case_returns:
  "fst p = Returns \<Longrightarrow>
   (case p of (Returns, s3) \<Rightarrow> f s3 | (Throws e, s3) \<Rightarrow> g e s3) = f (snd p)"
  by (cases p) auto

text \<open>
  C2. A submission with valid fields by a logged-in user, whose map POST succeeds and
  whose association POSTs all succeed except the one for the name at position \<open>i\<close>,
  which comes back with \<^verbatim>\<open>success: false\<close>: the one alert shown says that the map was
  inserted, gives the number of entities added (all but one), and says
  \<^verbatim>\<open>1 entities failed:\<close> followed by the failed name. The requests sent are the map
  POST and then one association POST per name, in order, and nothing else: no request
  undoes the map or an association. The temporary list ends empty.
\<close>

theorem partial_failure_reported:
  assumes fields: "trim t \<noteq> []" "trim d \<noteq> []" "trim p \<noteq> []"
    and temp: "tempEntitiesList s = Some names"
    and user: "currentUser s = Some u"
    and mapOk: "mapResponse = Resolves mapResult" "success mapResult"
    and i: "i < length names"
    and others: "\<forall>j < length names. j \<noteq> i \<longrightarrow> succeeds (entityResult j)"
    and failed: "entityResult i = Resolves r" "\<not> success r"
  shows "alerts (handleInsertMapWithEntities t d p mapResponse entityResult s)
           = alerts s @ [''Map inserted successfully!'' @ newline
                         @ show_nat (length names - 1) @ '' entities added successfully.''
                         @ newline @ ''1 entities failed: '' @ names ! i]
       \<and> requests (handleInsertMapWithEntities t d p mapResponse entityResult s)
           = requests s
             @ [\<lparr>httpMethod = POST, url = ''/api/maps'',
                 body = [(''Number'', trim t), (''Drawer'', trim d),
                         (''PropertyDetails'', trim p), (''CreatedBy'', username u)]\<rparr>]
             @ map (postEntity (trim t)) names
       \<and> tempEntitiesList (handleInsertMapWithEntities t d p mapResponse entityResult s)
           = Some []"
proof -
  let ?tn = "trim t"
  let ?s1 = "fetch POST ''/api/maps''
               [(''Number'', trim t), (''Drawer'', trim d),
                (''PropertyDetails'', trim p), (''CreatedBy'', username u)] s"
  define x where "x = names ! i"
  have "names = take i names @ x # drop (Suc i) names"
    unfolding x_def using i by (rule id_take_nth_drop)
  moreover have "length (take i names) = i"
    using i by simp
  ultimately obtain xs ys where split: "names = xs @ x # ys" and len: "length xs = i"
    by blast
  have total: "length names = length xs + Suc (length ys)"
    using arg_cong [OF split, of length] by simp
  have "\<forall>j < length xs. succeeds (entityResult (0 + j))"
    using others len total by auto
  from addEntities_all_succeed [OF this, of ?tn ?s1 0 "[]"] obtain sA where
    A: "addEntities ?tn entityResult 0 xs (?s1, 0, []) = (sA, length xs, [])"
       "requests sA = requests ?s1 @ map (postEntity ?tn) xs"
       "alerts sA = alerts ?s1"
    by auto
  let ?sA' = "fetch POST (''/api/entities/map/'' @ ?tn @ ''/add?entity_name=''
                          @ encodeURIComponent x) [] sA"
  have "\<forall>j < length ys. succeeds (entityResult (Suc i + j))"
    using others len total by auto
  from addEntities_all_succeed [OF this, of ?tn ?sA' "length xs" "[x]"] obtain sB where
    B: "addEntities ?tn entityResult (Suc i) ys (?sA', length xs, [x])
          = (sB, length xs + length ys, [x])"
       "requests sB = requests ?sA' @ map (postEntity ?tn) ys"
       "alerts sB = alerts ?sA'"
    by auto
  have "addEntities ?tn entityResult 0 names (?s1, 0, [])
          = addEntities ?tn entityResult i (x # ys) (sA, length xs, [])"
    unfolding split addEntities_append A by (simp only: len add_0)
  also have "\<dots> = addEntities ?tn entityResult (Suc i) ys (?sA', length xs, [x])"
    using failed by (simp add: Let_def)
  finally have loop: "addEntities ?tn entityResult 0 names (?s1, 0, [])
                        = (sB, length names - 1, [x])"
    using B total by simp
  have reqs: "requests sB = requests ?s1 @ map (postEntity ?tn) names"
  proof -
    have "map (postEntity ?tn) names
            = map (postEntity ?tn) xs @ postEntity ?tn x # map (postEntity ?tn) ys"
      by (subst split) simp
    then show ?thesis
      using A B by simp
  qed
  have alrt: "alerts sB = alerts s"
    using A B by simp
  have nonempty: "names \<noteq> []"
    using total by auto
  let ?report = "''Map inserted successfully!'' @ newline
                 @ show_nat (length names - 1) @ '' entities added successfully.''
                 @ newline @ ''1 entities failed: '' @ names ! i"
  have result: "handleInsertMapWithEntities t d p mapResponse entityResult s
                  = snd (updateTempEntitiesDisplay
                           ((alert ?report sB)\<lparr>tempEntitiesList := Some []\<rparr>))"
  proof -
    have "fst (updateTempEntitiesDisplay ((alert ?report sB)\<lparr>tempEntitiesList := Some []\<rparr>))
            = Returns"
      by (rule updateTempEntitiesDisplay_defined [of _ "[]"]) simp
    then show ?thesis
      using fields temp user mapOk nonempty
      by (simp add: handleInsertMapWithEntities_def Let_def loop show_nat_1 x_def
            case_returns)
  qed
  show ?thesis
    unfolding result using reqs alrt by simp
qed

lemma trim_fields:
  "trim ''T-100'' = ''T-100''" "trim ''D1'' = ''D1''" "trim ''North lot'' = ''North lot''"
  by (simp_all add: trim_def trimStart.simps trimEnd.simps leadingSpace_def trailingSpace_def
        whiteSpace_def)

theorem partial_failure_reported_witness:
  "alerts (handleInsertMapWithEntities ''T-100'' ''D1'' ''North lot''
             (Resolves \<lparr>success = True, resultMessage = None\<rparr>)
             (\<lambda>k. if k = 1 then Resolves \<lparr>success = False, resultMessage = Some ''exists''\<rparr>
                   else Resolves \<lparr>success = True, resultMessage = None\<rparr>)
             ((constructor ''/insert-map'')
                \<lparr>currentUser := Some \<lparr>username = ''admin'', displayName = ''Administrator'',
                                       isAdmin = JBool True, userSessionId = JNull\<rparr>,
                  tempEntitiesList := Some [''Acme'', ''Bolt'']\<rparr>))
     = [''Map inserted successfully!'' @ newline @ ''1 entities added successfully.''
        @ newline @ ''1 entities failed: Bolt'']
   \<and> map httpMethod (requests (handleInsertMapWithEntities ''T-100'' ''D1'' ''North lot''
             (Resolves \<lparr>success = True, resultMessage = None\<rparr>)
             (\<lambda>k. if k = 1 then Resolves \<lparr>success = False, resultMessage = Some ''exists''\<rparr>
                   else Resolves \<lparr>success = True, resultMessage = None\<rparr>)
             ((constructor ''/insert-map'')
                \<lparr>currentUser := Some \<lparr>username = ''admin'', displayName = ''Administrator'',
                                       isAdmin = JBool True, userSessionId = JNull\<rparr>,
                  tempEntitiesList := Some [''Acme'', ''Bolt'']\<rparr>)))
     = [POST, POST, POST]"
  using partial_failure_reported [of "''T-100''" "''D1''" "''North lot''"
      "(constructor ''/insert-map'')
                \<lparr>currentUser := Some \<lparr>username = ''admin'', displayName = ''Administrator'',
                                       isAdmin = JBool True, userSessionId = JNull\<rparr>,
                  tempEntitiesList := Some [''Acme'', ''Bolt'']\<rparr>"
      "[''Acme'', ''Bolt'']"
      "\<lparr>username = ''admin'', displayName = ''Administrator'',
                                       isAdmin = JBool True, userSessionId = JNull\<rparr>"
      "Resolves \<lparr>success = True, resultMessage = None\<rparr>"
      "\<lparr>success = True, resultMessage = None\<rparr>" 1
      "\<lambda>k. if k = 1 then Resolves \<lparr>success = False, resultMessage = Some ''exists''\<rparr>
                   else Resolves \<lparr>success = True, resultMessage = None\<rparr>"
      "\<lparr>success = False, resultMessage = Some ''exists''\<rparr>"]
    trim_fields show_nat_1
  by (simp add: constructor_def)

end
